theory Spec2Isabelle
  imports Main "HOL-Library.Char_ord" "HOL-Library.List_Lexorder" "HOL-Library.Sublist"
begin

section \<open>JavaScript values used by the redirect engine\<close>

text \<open>
  Strings are \<open>char list\<close> and are read as ASCII text; \<open>\<le>\<close> on them is the
  lexicographic order on character codes, which is what JavaScript's relational operators
  compute on two strings. \<open>toLowerCase\<close> and \<open>toUpperCase\<close> fold the letters
  \<open>A\<close> to \<open>Z\<close> and \<open>a\<close> to \<open>z\<close> and leave every other character as it is: on
  ASCII text they are \<open>String.prototype.toLowerCase\<close> and \<open>toUpperCase\<close>, which fold
  further letters of text that is not ASCII; such text is outside this model.
  A property that may be \<open>undefined\<close> is an \<open>option\<close>.
  A value is truthy in a condition when it is defined and not the empty string.
\<close>

definition truthy :: "string option \<Rightarrow> bool" where
  "truthy v = (case v of None \<Rightarrow> False | Some s \<Rightarrow> s \<noteq> [])"

definition toLowerCase_char :: "char \<Rightarrow> char" where
  "toLowerCase_char c =
     (let n = (of_char c :: nat) in if 65 \<le> n \<and> n \<le> 90 then char_of (n + 32) else c)"

definition toUpperCase_char :: "char \<Rightarrow> char" where
  "toUpperCase_char c =
     (let n = (of_char c :: nat) in if 97 \<le> n \<and> n \<le> 122 then char_of (n - 32) else c)"

definition toLowerCase :: "string \<Rightarrow> string" where
  "toLowerCase s = map toLowerCase_char s"

definition toUpperCase :: "string \<Rightarrow> string" where
  "toUpperCase s = map toUpperCase_char s"

definition includes_str :: "string \<Rightarrow> string \<Rightarrow> bool" where
  "includes_str s t = sublist t s"

definition startsWith :: "string \<Rightarrow> string \<Rightarrow> bool" where
  "startsWith s t = prefix t s"

definition endsWith :: "string \<Rightarrow> string \<Rightarrow> bool" where
  "endsWith s t = suffix t s"

definition padStart :: "nat \<Rightarrow> char \<Rightarrow> string \<Rightarrow> string" where
  "padStart n c s = replicate (n - length s) c @ s"

definition digit :: "nat \<Rightarrow> char" where
  "digit d = char_of (48 + d)"

fun toString_nat :: "nat \<Rightarrow> string" where
  "toString_nat n = (if n < 10 then [digit n] else toString_nat (n div 10) @ [digit (n mod 10)])"

declare toString_nat.simps [simp del]

text \<open>A number is an integer or \<open>NaN\<close> (\<open>None\<close>); \<open>Number.prototype.toString\<close>.\<close>

definition toString :: "int option \<Rightarrow> string" where
  "toString v =
     (case v of
        None \<Rightarrow> ''NaN''
      | Some n \<Rightarrow> if n < 0 then CHR ''-'' # toString_nat (nat (- n)) else toString_nat (nat n))"

datatype js_error = SyntaxError string | Error string

subsection \<open>Dates\<close>

text \<open>
  A \<open>Date\<close> holds a time value: milliseconds since the epoch, or \<open>NaN\<close> for an invalid
  date. The getters \<open>getDay\<close>, \<open>getHours\<close> and \<open>getMinutes\<close> read the local time of
  the process that runs the code, so the process's clock and time zone are part of the
  runtime; \<open>localTZA t\<close> is the offset in milliseconds of the server's zone from UTC at the
  instant \<open>t\<close>. The runtime also holds the regular-expression constructor: applied to a
  pattern and flags it throws (\<open>Inl\<close>) or yields the \<open>test\<close> function of the compiled
  expression.
\<close>

record runtime =
  clock_now :: int
  localTZA :: "int \<Rightarrow> int"
  RegExp :: "string \<Rightarrow> string \<Rightarrow> js_error + (string \<Rightarrow> bool)"

type_synonym date = "int option"

definition newDate :: "int \<Rightarrow> date" where
  "newDate t = (if \<bar>t\<bar> \<le> 8640000000000000 then Some t else None)"

definition localTime :: "runtime \<Rightarrow> int \<Rightarrow> int" where
  "localTime env t = t + localTZA env t"

definition getDay :: "runtime \<Rightarrow> date \<Rightarrow> int option" where
  "getDay env d = map_option (\<lambda>t. (localTime env t div 86400000 + 4) mod 7) d"

definition getHours :: "runtime \<Rightarrow> date \<Rightarrow> int option" where
  "getHours env d = map_option (\<lambda>t. (localTime env t div 3600000) mod 24) d"

definition getMinutes :: "runtime \<Rightarrow> date \<Rightarrow> int option" where
  "getMinutes env d = map_option (\<lambda>t. (localTime env t div 60000) mod 60) d"

text \<open>\<open>Array.prototype.includes\<close> on an array of integers; \<open>NaN\<close> is in none of them.\<close>

definition includes_num :: "int list \<Rightarrow> int option \<Rightarrow> bool" where
  "includes_num xs v = (case v of None \<Rightarrow> False | Some n \<Rightarrow> n \<in> set xs)"

subsection \<open>Sorting\<close>

text \<open>
  \<open>Array.prototype.sort\<close> with a comparator is a stable sort: an element goes before
  another when the comparator is negative, and elements that compare equal keep their
  order. Insertion from the right end gives exactly that permutation.
\<close>

fun insertBy :: "('a \<Rightarrow> 'a \<Rightarrow> int) \<Rightarrow> 'a \<Rightarrow> 'a list \<Rightarrow> 'a list" where
  "insertBy cmp x [] = [x]"
| "insertBy cmp x (y # ys) = (if cmp x y \<le> 0 then x # y # ys else y # insertBy cmp x ys)"

definition sortBy :: "('a \<Rightarrow> 'a \<Rightarrow> int) \<Rightarrow> 'a list \<Rightarrow> 'a list" where
  "sortBy cmp xs = foldr (insertBy cmp) xs []"

section \<open>Data model (Profile schema)\<close>

datatype redirectType = Static | TimeBased | GeoBased | Conditional

datatype condition = Device | Browser | Referrer | UserAgent

datatype operator = Equals | Contains | StartsWith | EndsWith | Regex

text \<open>
  The three kinds of rule share \<open>name\<close>, \<open>url\<close> and \<open>active\<close>; geo and conditional rules
  also carry \<open>priority\<close>. The schema's enum validators restrict \<open>redirectType\<close>,
  \<open>condition\<close> and \<open>operator\<close> to the constructors above, so the \<open>default\<close>
  branch of the operator switch is not reached. \<open>val\<close> is the property \<open>value\<close> of a
  conditional rule.
\<close>

record redirectRule =
  name :: string
  url :: string
  active :: bool

record timeRule = redirectRule +
  startTime :: string
  endTime :: string
  daysOfWeek :: "int list"
  timezone :: string

record priorityRule = redirectRule +
  priority :: int

record geoRule = priorityRule +
  country :: "string option"
  region :: "string option"
  city :: "string option"

record conditionalRule = priorityRule +
  condition :: condition
  val :: string
  operator :: operator

record profile =
  redirectUrl :: "string option"
  redirectType :: redirectType
  timeBasedRedirects :: "timeRule list"
  geoBasedRedirects :: "geoRule list"
  conditionalRedirects :: "conditionalRule list"

text \<open>
  The context object of a tap. \<open>loc_country\<close>, \<open>loc_region\<close> and \<open>loc_city\<close> are the
  properties \<open>country\<close>, \<open>region\<close> and \<open>city\<close> of \<open>context.location\<close>; \<open>user_agent\<close> is
  the property \<open>'user-agent'\<close>. \<open>timestamp\<close> is a time value in milliseconds.
\<close>

record location =
  loc_country :: "string option"
  loc_region :: "string option"
  loc_city :: "string option"

record tapContext =
  timestamp :: "int option"
  location :: "location option"
  device :: "string option"
  browser :: "string option"
  referrer :: "string option"
  user_agent :: "string option"

definition emptyLocation :: location where
  "emptyLocation = \<lparr>loc_country = None, loc_region = None, loc_city = None\<rparr>"

text \<open>\<open>context[rule.condition]\<close>\<close>

fun signal :: "tapContext \<Rightarrow> condition \<Rightarrow> string option" where
  "signal ctx Device = device ctx"
| "signal ctx Browser = browser ctx"
| "signal ctx Referrer = referrer ctx"
| "signal ctx UserAgent = user_agent ctx"

section \<open>Rule matching and selection (Profile methods)\<close>

subsection \<open>getActiveTimeBasedRedirect\<close>

definition currentDay :: "runtime \<Rightarrow> int option \<Rightarrow> int option" where
  "currentDay env ts =
     (let now = newDate (case ts of None \<Rightarrow> clock_now env | Some t \<Rightarrow> t)
      in getDay env now)"

definition currentTime :: "runtime \<Rightarrow> int option \<Rightarrow> string" where
  "currentTime env ts =
     (let now = newDate (case ts of None \<Rightarrow> clock_now env | Some t \<Rightarrow> t)
      in padStart 2 CHR ''0'' (toString (getHours env now)) @ '':'' @
         padStart 2 CHR ''0'' (toString (getMinutes env now)))"

definition timeRuleApplies :: "int option \<Rightarrow> string \<Rightarrow> timeRule \<Rightarrow> bool" where
  "timeRuleApplies day time rule =
     (if 0 < length (daysOfWeek rule) \<and> \<not> includes_num (daysOfWeek rule) day then False
      else startTime rule \<le> time \<and> time \<le> endTime rule)"

definition getActiveTimeBasedRedirect :: "runtime \<Rightarrow> profile \<Rightarrow> int option \<Rightarrow> timeRule option" where
  "getActiveTimeBasedRedirect env p ts =
     find (timeRuleApplies (currentDay env ts) (currentTime env ts))
       (filter active (timeBasedRedirects p))"

subsection \<open>getActiveGeoBasedRedirect\<close>

definition geoRuleApplies :: "location \<Rightarrow> geoRule \<Rightarrow> bool" where
  "geoRuleApplies loc rule =
     (if truthy (country rule) \<and> loc_country loc \<noteq> country rule then False
      else if truthy (region rule) \<and> loc_region loc \<noteq> region rule then False
      else if truthy (city rule) \<and> loc_city loc \<noteq> city rule then False
      else True)"

definition byPriority :: "('a priorityRule_scheme) \<Rightarrow> ('a priorityRule_scheme) \<Rightarrow> int" where
  "byPriority a b = priority b - priority a"

definition getActiveGeoBasedRedirect :: "profile \<Rightarrow> location option \<Rightarrow> geoRule option" where
  "getActiveGeoBasedRedirect p l =
     (let loc = (case l of None \<Rightarrow> emptyLocation | Some loc' \<Rightarrow> loc')
      in find (geoRuleApplies loc) (sortBy byPriority (filter active (geoBasedRedirects p))))"

subsection \<open>getActiveConditionalRedirect\<close>

definition regexTest :: "runtime \<Rightarrow> string \<Rightarrow> string \<Rightarrow> bool" where
  "regexTest env pattern testValue =
     (case RegExp env pattern ''i'' of
        Inl e \<Rightarrow> False
      | Inr test \<Rightarrow> test testValue)"

definition conditionalRuleApplies :: "runtime \<Rightarrow> tapContext \<Rightarrow> conditionalRule \<Rightarrow> bool" where
  "conditionalRuleApplies env ctx rule =
     (let testValue = (if truthy (signal ctx (condition rule)) then the (signal ctx (condition rule)) else []);
          ruleValue = toLowerCase (val rule);
          testValueLower = toLowerCase testValue
      in case operator rule of
           Equals \<Rightarrow> testValueLower = ruleValue
         | Contains \<Rightarrow> includes_str testValueLower ruleValue
         | StartsWith \<Rightarrow> startsWith testValueLower ruleValue
         | EndsWith \<Rightarrow> endsWith testValueLower ruleValue
         | Regex \<Rightarrow> regexTest env (val rule) testValue)"

definition getActiveConditionalRedirect :: "runtime \<Rightarrow> profile \<Rightarrow> tapContext \<Rightarrow> conditionalRule option" where
  "getActiveConditionalRedirect env p ctx =
     find (conditionalRuleApplies env ctx)
       (sortBy byPriority (filter active (conditionalRedirects p)))"

subsection \<open>getRedirectUrl\<close>

definition getRedirectUrl :: "runtime \<Rightarrow> profile \<Rightarrow> tapContext \<Rightarrow> string option" where
  "getRedirectUrl env p ctx =
     (if redirectType p = Static then redirectUrl p
      else
        case (if redirectType p = TimeBased \<and> 0 < length (timeBasedRedirects p)
              then getActiveTimeBasedRedirect env p (timestamp ctx) else None) of
          Some activeTimeRule \<Rightarrow> Some (url activeTimeRule)
        | None \<Rightarrow>
        (case (if redirectType p = GeoBased \<and> 0 < length (geoBasedRedirects p)
               then getActiveGeoBasedRedirect p (location ctx) else None) of
          Some geoRule \<Rightarrow> Some (url geoRule)
        | None \<Rightarrow>
        (case (if redirectType p = Conditional \<and> 0 < length (conditionalRedirects p)
               then getActiveConditionalRedirect env p ctx else None) of
          Some conditionalRule \<Rightarrow> Some (url conditionalRule)
        | None \<Rightarrow> redirectUrl p)))"

section \<open>The tap route (GET /tap/:cardUID)\<close>

text \<open>
  The populated owner of a card and its virtual \<open>fullName\<close>. The card's \<open>profile\<close> is a
  reference (an object id) or null.
\<close>

record user =
  email :: "string option"
  firstName :: "string option"
  lastName :: "string option"

definition fullName :: "user \<Rightarrow> string option" where
  "fullName u =
     (if truthy (firstName u) \<and> truthy (lastName u)
      then Some (the (firstName u) @ '' '' @ the (lastName u))
      else if truthy (firstName u) then firstName u
      else if truthy (lastName u) then lastName u
      else email u)"

record card =
  cardUID :: string
  nickname :: "string option"
  owner :: "user option"
  tapCount :: int
  lastTapped :: "int option"
  isActivated :: bool
  profile :: "nat option"

text \<open>
  The data store: the query \<open>Card.findOne({cardUID})\<close>, the write \<open>card.save()\<close>, either
  of which may reject, and the profile collection.
\<close>

record store =
  findOne :: "string \<Rightarrow> js_error + card option"
  save :: "card \<Rightarrow> js_error + unit"
  profiles :: "nat \<Rightarrow> profile option"

definition recordTap :: "runtime \<Rightarrow> store \<Rightarrow> card \<Rightarrow> js_error + card" where
  "recordTap env st c =
     (let c' = c\<lparr>tapCount := tapCount c + 1, lastTapped := Some (clock_now env)\<rparr>
      in case save st c' of Inl e \<Rightarrow> Inl e | Inr u \<Rightarrow> Inr c')"

text \<open>
  What the handler does with the request: it sends a JSON body with a status, or hands an
  error to \<open>next\<close>. The fields \<open>r_uid\<close> \<dots> \<open>r_hasProfile\<close> are \<open>data.card\<close> of the
  success body and \<open>r_redirectUrl\<close> is \<open>data.redirectUrl\<close>.
\<close>

record tapData =
  r_uid :: string
  r_nickname :: "string option"
  r_owner :: "string option"
  r_tapCount :: int
  r_hasProfile :: bool
  r_redirectUrl :: "string option"

datatype body = Failure string | Success string tapData

datatype response = Json nat body | Next js_error

definition tap :: "runtime \<Rightarrow> store \<Rightarrow> string \<Rightarrow> response" where
  "tap env st cardUID_param =
     (case findOne st (toUpperCase cardUID_param) of
        Inl error \<Rightarrow> Next error
      | Inr None \<Rightarrow> Json 404 (Failure ''Card not found'')
      | Inr (Some c) \<Rightarrow>
          if \<not> isActivated c then Json 400 (Failure ''Card not activated'')
          else
            case recordTap env st c of
              Inl error \<Rightarrow> Next error
            | Inr c' \<Rightarrow>
                Json 200 (Success ''Card tapped successfully''
                  \<lparr>r_uid = cardUID c',
                   r_nickname = nickname c',
                   r_owner = (case owner c' of None \<Rightarrow> None | Some u \<Rightarrow> fullName u),
                   r_tapCount = tapCount c',
                   r_hasProfile = (profile c' \<noteq> None),
                   r_redirectUrl =
                     (if profile c' \<noteq> None then Some ''https://example.com'' else None)\<rparr>))"

section \<open>Sample runtimes, profiles and stores\<close>

text \<open>
  A small regular-expression constructor for running examples: it compiles a pattern made
  of literal characters only, to a substring test that ignores case under the flag \<open>i\<close>,
  and throws on every other pattern. The theorems below hold for every runtime; only the
  examples use this one.
\<close>

definition literalRegExp :: "string \<Rightarrow> string \<Rightarrow> js_error + (string \<Rightarrow> bool)" where
  "literalRegExp pattern flags =
     (if \<exists>c \<in> set pattern. c \<in> set ''()[]{}*+?|^$.'' then Inl (SyntaxError pattern)
      else Inr (\<lambda>s. if CHR ''i'' \<in> set flags
                     then sublist (toLowerCase pattern) (toLowerCase s)
                     else sublist pattern s))"

definition serverAt :: "int \<Rightarrow> runtime" where
  "serverAt offsetHours =
     \<lparr>clock_now = 0, localTZA = (\<lambda>t. offsetHours * 3600000), RegExp = literalRegExp\<rparr>"

definition noContext :: tapContext where
  "noContext = \<lparr>timestamp = None, location = None, device = None, browser = None,
                 referrer = None, user_agent = None\<rparr>"

subsection \<open>The resolution algorithm in one step\<close>

text \<open>
  The url of the rule that the selector of the profile's strategy picks, if any. Under
  \<open>static\<close> no selector is consulted.
\<close>

definition selectedUrl :: "runtime \<Rightarrow> profile \<Rightarrow> tapContext \<Rightarrow> string option" where
  "selectedUrl env p ctx =
     (case redirectType p of
        Static \<Rightarrow> None
      | TimeBased \<Rightarrow> map_option url (getActiveTimeBasedRedirect env p (timestamp ctx))
      | GeoBased \<Rightarrow> map_option url (getActiveGeoBasedRedirect p (location ctx))
      | Conditional \<Rightarrow> map_option url (getActiveConditionalRedirect env p ctx))"

subsection \<open>Sample rules and profiles\<close>

definition workRule :: timeRule where
  "workRule = \<lparr>name = ''work'', url = ''https://work.example'', active = True,
                startTime = ''09:00'', endTime = ''17:00'', daysOfWeek = [1, 2, 3, 4, 5],
                timezone = ''America/New_York''\<rparr>"

definition timeProfile :: "timeRule list \<Rightarrow> profile" where
  "timeProfile rules = \<lparr>redirectUrl = Some ''https://default.example'', redirectType = TimeBased,
     timeBasedRedirects = rules, geoBasedRedirects = [], conditionalRedirects = []\<rparr>"

definition geoProfile :: "geoRule list \<Rightarrow> profile" where
  "geoProfile rules = \<lparr>redirectUrl = Some ''https://default.example'', redirectType = GeoBased,
     timeBasedRedirects = [], geoBasedRedirects = rules, conditionalRedirects = []\<rparr>"

definition conditionalProfile :: "conditionalRule list \<Rightarrow> profile" where
  "conditionalProfile rules = \<lparr>redirectUrl = Some ''https://default.example'',
     redirectType = Conditional,
     timeBasedRedirects = [], geoBasedRedirects = [], conditionalRedirects = rules\<rparr>"

definition geo :: "string \<Rightarrow> int \<Rightarrow> string option \<Rightarrow> string option \<Rightarrow> geoRule" where
  "geo u k c r = \<lparr>name = u, url = u, active = True, priority = k,
                   country = c, region = r, city = None\<rparr>"

definition cond :: "string \<Rightarrow> int \<Rightarrow> condition \<Rightarrow> operator \<Rightarrow> string \<Rightarrow> conditionalRule" where
  "cond u k c opr v = \<lparr>name = u, url = u, active = True, priority = k,
                        condition = c, val = v, operator = opr\<rparr>"

definition at :: "int \<Rightarrow> tapContext" where
  "at t = noContext\<lparr>timestamp := Some t\<rparr>"

definition visitor :: "string \<Rightarrow> string \<Rightarrow> tapContext" where
  "visitor c r = noContext\<lparr>location :=
     Some \<lparr>loc_country = Some c, loc_region = Some r, loc_city = None\<rparr>\<rparr>"

definition staticProfile :: "string option \<Rightarrow> profile" where
  "staticProfile u = \<lparr>redirectUrl = u, redirectType = Static,
     timeBasedRedirects = [workRule],
     geoBasedRedirects = [geo ''https://us.example'' 5 (Some ''US'') None],
     conditionalRedirects = [cond ''https://m.example'' 1 Device Equals ''mobile'']\<rparr>"

definition sampleCard :: card where
  "sampleCard = \<lparr>cardUID = ''ABCD1234'', nickname = None, owner = None, tapCount = 0,
                  lastTapped = None, isActivated = True, profile = Some 1\<rparr>"

definition sampleStore :: "(card \<Rightarrow> js_error + unit) \<Rightarrow> store" where
  "sampleStore sv =
     \<lparr>findOne = (\<lambda>uid. Inr (if uid = ''ABCD1234'' then Some sampleCard else None)),
      save = sv,
      profiles = (\<lambda>i. if i = 1 then Some (staticProfile (Some ''https://a.example'')) else None)\<rparr>"

definition acceptingSave :: "card \<Rightarrow> js_error + unit" where
  "acceptingSave c = Inr ()"

definition rejectingSave :: "card \<Rightarrow> js_error + unit" where
  "rejectingSave c = Inl (Error ''write failed'')"

definition badRegexRule :: conditionalRule where
  "badRegexRule = cond ''https://bad.example'' 10 UserAgent Regex ''(''"

definition iphoneRule :: conditionalRule where
  "iphoneRule = cond ''https://m.example'' 1 UserAgent Regex ''iphone''"

section \<open>Auxiliary facts\<close>

lemma insertBy_insort: "insertBy byPriority x ys = insort_key (\<lambda>r. - priority r) x ys"
  by (induction ys) (auto simp: byPriority_def)

lemma sortBy_sort_key: "sortBy byPriority xs = sort_key (\<lambda>r. - priority r) xs"
  by (induction xs) (simp_all add: sortBy_def insertBy_insort)

lemma find_filter: "find P (filter Q xs) = find (\<lambda>x. Q x \<and> P x) xs"
  by (induction xs) auto

lemma find_as_filter: "find P xs = (case filter P xs of [] \<Rightarrow> None | y # ys \<Rightarrow> Some y)"
  by (induction xs) auto

text \<open>The head of a stably sorted list is the first element with the least key.\<close>

lemma head_sort_key:
  "(case sort_key f ys of [] \<Rightarrow> None | z # zs \<Rightarrow> Some z) =
   find (\<lambda>x. \<forall>y \<in> set ys. f x \<le> f y) ys"
proof (induction ys)
  case Nil
  show ?case by simp
next
  case (Cons a ys)
  show ?case
  proof (cases "sort_key f ys")
    case Nil
    then have "ys = []" by (metis length_sort list.size(3) length_0_conv)
    then show ?thesis by simp
  next
    case (Cons z zs)
    with Cons.IH have fz: "find (\<lambda>x. \<forall>y \<in> set ys. f x \<le> f y) ys = Some z" by simp
    then have zin: "z \<in> set ys" and zmin: "\<forall>y \<in> set ys. f z \<le> f y"
      by (auto simp: find_Some_iff)
    show ?thesis
    proof (cases "f a \<le> f z")
      case True
      then have "\<forall>y \<in> set (a # ys). f a \<le> f y" using zmin by auto
      then show ?thesis using Cons True by simp
    next
      case False
      then have na: "\<not> (\<forall>y \<in> set (a # ys). f a \<le> f y)" using zin by auto
      have "find (\<lambda>x. \<forall>y \<in> set (a # ys). f x \<le> f y) ys =
            find (\<lambda>x. \<forall>y \<in> set ys. f x \<le> f y) ys"
      proof (rule find_cong[OF refl])
        fix x assume "x \<in> set ys"
        show "(\<forall>y \<in> set (a # ys). f x \<le> f y) = (\<forall>y \<in> set ys. f x \<le> f y)"
          using False zin by auto
      qed
      moreover have "find (\<lambda>x. \<forall>y \<in> set (a # ys). f x \<le> f y) (a # ys) =
                     find (\<lambda>x. \<forall>y \<in> set (a # ys). f x \<le> f y) ys"
        using na by (simp only: find.simps if_False)
      moreover have "(case sort_key f (a # ys) of [] \<Rightarrow> None | z # zs \<Rightarrow> Some z) = Some z"
        using Cons False by simp
      ultimately show ?thesis using fz by simp
    qed
  qed
qed

lemma find_sort_key:
  "find P (sort_key f xs) = find (\<lambda>x. P x \<and> (\<forall>y \<in> set xs. P y \<longrightarrow> f x \<le> f y)) xs"
proof -
  have "find P (sort_key f xs) =
        (case sort_key f (filter P xs) of [] \<Rightarrow> None | z # zs \<Rightarrow> Some z)"
    by (simp add: find_as_filter[of P "sort_key f xs"] filter_sort)
  also have "\<dots> = find (\<lambda>x. \<forall>y \<in> set (filter P xs). f x \<le> f y) (filter P xs)"
    by (rule head_sort_key)
  also have "\<dots> = find (\<lambda>x. P x \<and> (\<forall>y \<in> set xs. P y \<longrightarrow> f x \<le> f y)) xs"
    unfolding find_filter by (rule find_cong) auto
  finally show ?thesis .
qed

text \<open>
  Filtering the active rules, sorting them by priority and taking the first that applies
  picks the first rule of the original list among the active, applicable rules of
  greatest priority.
\<close>

lemma select_by_priority:
  "find P (sortBy byPriority (filter active xs)) =
   find (\<lambda>x. active x \<and> P x \<and>
              (\<forall>y \<in> set xs. active y \<and> P y \<longrightarrow> priority y \<le> priority x)) xs"
proof -
  have "find P (sortBy byPriority (filter active xs)) =
        find (\<lambda>x. P x \<and> (\<forall>y \<in> set (filter active xs). P y \<longrightarrow> priority y \<le> priority x))
          (filter active xs)"
    by (simp add: sortBy_sort_key find_sort_key)
  also have "\<dots> = find (\<lambda>x. active x \<and> P x \<and>
                    (\<forall>y \<in> set xs. active y \<and> P y \<longrightarrow> priority y \<le> priority x)) xs"
    unfolding find_filter by (rule find_cong) auto
  finally show ?thesis .
qed

lemma getRedirectUrl_selectedUrl:
  "getRedirectUrl env p ctx =
     (case selectedUrl env p ctx of Some u \<Rightarrow> Some u | None \<Rightarrow> redirectUrl p)"
proof (cases "redirectType p")
  case Static
  then show ?thesis by (simp add: getRedirectUrl_def selectedUrl_def)
next
  case TimeBased
  have "timeBasedRedirects p = [] \<Longrightarrow> getActiveTimeBasedRedirect env p (timestamp ctx) = None"
    by (simp add: getActiveTimeBasedRedirect_def)
  with TimeBased show ?thesis
    by (auto simp: getRedirectUrl_def selectedUrl_def split: option.splits)
next
  case GeoBased
  have "geoBasedRedirects p = [] \<Longrightarrow> getActiveGeoBasedRedirect p (location ctx) = None"
    by (simp add: getActiveGeoBasedRedirect_def sortBy_def)
  with GeoBased show ?thesis
    by (auto simp: getRedirectUrl_def selectedUrl_def split: option.splits)
next
  case Conditional
  have "conditionalRedirects p = [] \<Longrightarrow> getActiveConditionalRedirect env p ctx = None"
    by (simp add: getActiveConditionalRedirect_def sortBy_def)
  with Conditional show ?thesis
    by (auto simp: getRedirectUrl_def selectedUrl_def split: option.splits)
qed

section \<open>Time-based selection\<close>

text \<open>
  C5. For every list of time rules and every context, \<open>getActiveTimeBasedRedirect\<close>
  returns the first rule, in the order of the list, that is active, whose \<open>daysOfWeek\<close> is
  empty or contains the computed day of the week, and whose \<open>startTime\<close> and \<open>endTime\<close>
  enclose the computed \<open>HH:MM\<close> string in the lexicographic order, both bounds included;
  it returns nothing exactly when no rule of the list is such. A rule whose \<open>daysOfWeek\<close>
  is empty applies on whatever day is computed.
\<close>

theorem C5_time_selection_first_match:
  "getActiveTimeBasedRedirect env p ts =
     find (\<lambda>rule. active rule \<and>
                  (daysOfWeek rule = [] \<or> includes_num (daysOfWeek rule) (currentDay env ts)) \<and>
                  startTime rule \<le> currentTime env ts \<and> currentTime env ts \<le> endTime rule)
       (timeBasedRedirects p)
   \<and> (getActiveTimeBasedRedirect env p ts = Some r \<longleftrightarrow>
        (\<exists>i < length (timeBasedRedirects p).
           r = timeBasedRedirects p ! i \<and>
           active r \<and> timeRuleApplies (currentDay env ts) (currentTime env ts) r \<and>
           (\<forall>j < i. \<not> (active (timeBasedRedirects p ! j) \<and>
                         timeRuleApplies (currentDay env ts) (currentTime env ts)
                           (timeBasedRedirects p ! j)))))
   \<and> (getActiveTimeBasedRedirect env p ts = None \<longleftrightarrow>
        (\<forall>rule \<in> set (timeBasedRedirects p).
           \<not> (active rule \<and> timeRuleApplies (currentDay env ts) (currentTime env ts) rule)))
   \<and> timeRuleApplies day time (rule\<lparr>daysOfWeek := []\<rparr>) =
        (startTime rule \<le> time \<and> time \<le> endTime rule)"
proof -
  let ?A = "\<lambda>rule. active rule \<and> timeRuleApplies (currentDay env ts) (currentTime env ts) rule"
  have sel: "getActiveTimeBasedRedirect env p ts = find ?A (timeBasedRedirects p)"
    by (simp add: getActiveTimeBasedRedirect_def find_filter)
  show ?thesis
  proof (intro conjI)
    show "getActiveTimeBasedRedirect env p ts =
            find (\<lambda>rule. active rule \<and>
                  (daysOfWeek rule = [] \<or> includes_num (daysOfWeek rule) (currentDay env ts)) \<and>
                  startTime rule \<le> currentTime env ts \<and> currentTime env ts \<le> endTime rule)
              (timeBasedRedirects p)"
      unfolding sel by (rule find_cong) (auto simp: timeRuleApplies_def)
    show "getActiveTimeBasedRedirect env p ts = Some r \<longleftrightarrow>
        (\<exists>i < length (timeBasedRedirects p).
           r = timeBasedRedirects p ! i \<and>
           active r \<and> timeRuleApplies (currentDay env ts) (currentTime env ts) r \<and>
           (\<forall>j < i. \<not> (active (timeBasedRedirects p ! j) \<and>
                         timeRuleApplies (currentDay env ts) (currentTime env ts)
                           (timeBasedRedirects p ! j))))"
      unfolding sel find_Some_iff by blast
    show "getActiveTimeBasedRedirect env p ts = None \<longleftrightarrow>
        (\<forall>rule \<in> set (timeBasedRedirects p).
           \<not> (active rule \<and> timeRuleApplies (currentDay env ts) (currentTime env ts) rule))"
      unfolding sel find_None_iff by blast
    show "timeRuleApplies day time (rule\<lparr>daysOfWeek := []\<rparr>) =
        (startTime rule \<le> time \<and> time \<le> endTime rule)"
      by (simp add: timeRuleApplies_def)
  qed
qed

text \<open>
  On Thursday 1 January 1970 at 13:00 UTC, on a server in UTC: the first rule is inactive,
  the second is for Saturday and Sunday, the third has no days and is selected before the
  fourth, which applies as well.
\<close>

theorem C5_time_selection_witness:
  "getActiveTimeBasedRedirect (serverAt 0)
     (timeProfile [workRule\<lparr>active := False\<rparr>,
                   workRule\<lparr>daysOfWeek := [0, 6]\<rparr>,
                   workRule\<lparr>daysOfWeek := [], startTime := ''13:00'', endTime := ''13:00''\<rparr>,
                   workRule]) (Some 46800000)
   = Some (workRule\<lparr>daysOfWeek := [], startTime := ''13:00'', endTime := ''13:00''\<rparr>)"
proof -
  let ?p = "timeProfile [workRule\<lparr>active := False\<rparr>,
                   workRule\<lparr>daysOfWeek := [0, 6]\<rparr>,
                   workRule\<lparr>daysOfWeek := [], startTime := ''13:00'', endTime := ''13:00''\<rparr>,
                   workRule]"
  have "find (\<lambda>rule. active rule \<and>
                  (daysOfWeek rule = [] \<or>
                   includes_num (daysOfWeek rule) (currentDay (serverAt 0) (Some 46800000))) \<and>
                  startTime rule \<le> currentTime (serverAt 0) (Some 46800000) \<and>
                  currentTime (serverAt 0) (Some 46800000) \<le> endTime rule)
          (timeBasedRedirects ?p)
        = Some (workRule\<lparr>daysOfWeek := [], startTime := ''13:00'', endTime := ''13:00''\<rparr>)"
    by code_simp
  with C5_time_selection_first_match [of "serverAt 0" ?p "Some 46800000"]
  show ?thesis by simp
qed

section \<open>Selection by priority\<close>

text \<open>
  C6. For every list of geo rules or of conditional rules and every context, the selected
  rule is the first rule of the list, in its original order, among the active rules that
  apply and have the greatest priority of all active rules that apply: a greater priority
  wins, and of two rules of equal priority the one declared earlier wins. The selection is
  a function of the profile and the context, so that a repeated call gives the same rule.
\<close>

theorem C6_priority_selection:
  "getActiveGeoBasedRedirect p l =
     find (\<lambda>r. active r \<and> geoRuleApplies (case l of None \<Rightarrow> emptyLocation | Some loc \<Rightarrow> loc) r \<and>
               (\<forall>r' \<in> set (geoBasedRedirects p).
                  active r' \<and> geoRuleApplies (case l of None \<Rightarrow> emptyLocation | Some loc \<Rightarrow> loc) r'
                  \<longrightarrow> priority r' \<le> priority r))
       (geoBasedRedirects p)
   \<and> getActiveConditionalRedirect env p ctx =
     find (\<lambda>r. active r \<and> conditionalRuleApplies env ctx r \<and>
               (\<forall>r' \<in> set (conditionalRedirects p).
                  active r' \<and> conditionalRuleApplies env ctx r' \<longrightarrow> priority r' \<le> priority r))
       (conditionalRedirects p)"
  by (simp add: getActiveGeoBasedRedirect_def getActiveConditionalRedirect_def
        select_by_priority Let_def)

text \<open>
  A visitor from California: the rule of priority 5 loses to the two of priority 10, and of
  these the one declared first is selected. A mobile device: likewise.
\<close>

theorem C6_priority_selection_witness:
  "getActiveGeoBasedRedirect
     (geoProfile [geo ''https://us.example'' 5 (Some ''US'') None,
                  geo ''https://ca.example'' 10 (Some ''US'') (Some ''CA''),
                  geo ''https://us2.example'' 10 (Some ''US'') None])
     (location (visitor ''US'' ''CA''))
   = Some (geo ''https://ca.example'' 10 (Some ''US'') (Some ''CA''))
   \<and> getActiveConditionalRedirect (serverAt 0)
     (conditionalProfile [cond ''https://a.example'' 1 Device Contains ''mob'',
                          cond ''https://b.example'' 2 Device Equals ''mobile'',
                          cond ''https://c.example'' 2 Device StartsWith ''mo''])
     (noContext\<lparr>device := Some ''Mobile''\<rparr>)
   = Some (cond ''https://b.example'' 2 Device Equals ''mobile'')"
proof -
  let ?g = "geoProfile [geo ''https://us.example'' 5 (Some ''US'') None,
                  geo ''https://ca.example'' 10 (Some ''US'') (Some ''CA''),
                  geo ''https://us2.example'' 10 (Some ''US'') None]"
  let ?c = "conditionalProfile [cond ''https://a.example'' 1 Device Contains ''mob'',
                          cond ''https://b.example'' 2 Device Equals ''mobile'',
                          cond ''https://c.example'' 2 Device StartsWith ''mo'']"
  let ?l = "location (visitor ''US'' ''CA'')"
  let ?ctx = "noContext\<lparr>device := Some ''Mobile''\<rparr>"
  have g: "find (\<lambda>r. active r \<and> geoRuleApplies (case ?l of None \<Rightarrow> emptyLocation | Some loc \<Rightarrow> loc) r \<and>
               (\<forall>r' \<in> set (geoBasedRedirects ?g).
                  active r' \<and> geoRuleApplies (case ?l of None \<Rightarrow> emptyLocation | Some loc \<Rightarrow> loc) r'
                  \<longrightarrow> priority r' \<le> priority r))
            (geoBasedRedirects ?g)
           = Some (geo ''https://ca.example'' 10 (Some ''US'') (Some ''CA''))"
    by code_simp
  have c: "find (\<lambda>r. active r \<and> conditionalRuleApplies (serverAt 0) ?ctx r \<and>
               (\<forall>r' \<in> set (conditionalRedirects ?c).
                  active r' \<and> conditionalRuleApplies (serverAt 0) ?ctx r' \<longrightarrow> priority r' \<le> priority r))
            (conditionalRedirects ?c)
           = Some (cond ''https://b.example'' 2 Device Equals ''mobile'')"
    by code_simp
  from g c
    C6_priority_selection [where p = ?g and l = ?l, THEN conjunct1]
    C6_priority_selection [where p = ?c and env = "serverAt 0" and ctx = ?ctx, THEN conjunct2]
  show ?thesis by simp
qed

section \<open>Resolution\<close>

text \<open>
  C7. For every profile whose strategy is \<open>static\<close>, \<open>getRedirectUrl\<close> returns the
  profile's \<open>redirectUrl\<close> for every context; the three rule lists are not consulted:
  whatever they hold, and whatever the context and the runtime are, the result is the same.
\<close>

theorem C7_static_returns_default:
  "redirectType p = Static \<Longrightarrow>
     getRedirectUrl env p ctx = redirectUrl p \<and>
     getRedirectUrl env' (p\<lparr>timeBasedRedirects := ts, geoBasedRedirects := gs,
                            conditionalRedirects := cs\<rparr>) ctx' = redirectUrl p"
  by (simp add: getRedirectUrl_def)

text \<open>
  A static profile with one rule of each kind, each of which applies to the context: on a
  Thursday at 13:00, for a mobile device in the US.
\<close>

theorem C7_static_witness:
  "redirectType (staticProfile (Some ''https://a.example'')) = Static
   \<and> timeRuleApplies (currentDay (serverAt 0) (Some 46800000))
        (currentTime (serverAt 0) (Some 46800000)) workRule
   \<and> getRedirectUrl (serverAt 0) (staticProfile (Some ''https://a.example''))
        ((visitor ''US'' ''CA'')\<lparr>timestamp := Some 46800000, device := Some ''mobile''\<rparr>)
      = Some ''https://a.example''"
proof -
  have s: "redirectType (staticProfile (Some ''https://a.example'')) = Static"
    by (simp add: staticProfile_def)
  have t: "timeRuleApplies (currentDay (serverAt 0) (Some 46800000))
        (currentTime (serverAt 0) (Some 46800000)) workRule"
    by code_simp
  have u: "redirectUrl (staticProfile (Some ''https://a.example'')) = Some ''https://a.example''"
    by (simp add: staticProfile_def)
  from C7_static_returns_default [OF s, THEN conjunct1] s t u show ?thesis by simp
qed

text \<open>
  C8. For every profile whose strategy is not \<open>static\<close>: when the rule list of the strategy
  is empty, or none of its rules is active and applies to the context, \<open>getRedirectUrl\<close>
  returns the profile's \<open>redirectUrl\<close>.
\<close>

theorem C8_no_match_returns_default:
  "(redirectType p = TimeBased \<and>
      (\<forall>r \<in> set (timeBasedRedirects p).
         \<not> (active r \<and> timeRuleApplies (currentDay env (timestamp ctx))
                          (currentTime env (timestamp ctx)) r))
      \<longrightarrow> getRedirectUrl env p ctx = redirectUrl p)
   \<and> (redirectType p = GeoBased \<and>
      (\<forall>r \<in> set (geoBasedRedirects p).
         \<not> (active r \<and> geoRuleApplies
               (case location ctx of None \<Rightarrow> emptyLocation | Some loc \<Rightarrow> loc) r))
      \<longrightarrow> getRedirectUrl env p ctx = redirectUrl p)
   \<and> (redirectType p = Conditional \<and>
      (\<forall>r \<in> set (conditionalRedirects p). \<not> (active r \<and> conditionalRuleApplies env ctx r))
      \<longrightarrow> getRedirectUrl env p ctx = redirectUrl p)"
proof (intro conjI impI)
  assume a: "redirectType p = TimeBased \<and>
      (\<forall>r \<in> set (timeBasedRedirects p).
         \<not> (active r \<and> timeRuleApplies (currentDay env (timestamp ctx))
                          (currentTime env (timestamp ctx)) r))"
  then have "getActiveTimeBasedRedirect env p (timestamp ctx) = None"
    by (auto simp: getActiveTimeBasedRedirect_def find_None_iff)
  with a show "getRedirectUrl env p ctx = redirectUrl p"
    by (simp add: getRedirectUrl_selectedUrl selectedUrl_def)
next
  assume a: "redirectType p = GeoBased \<and>
      (\<forall>r \<in> set (geoBasedRedirects p).
         \<not> (active r \<and> geoRuleApplies
               (case location ctx of None \<Rightarrow> emptyLocation | Some loc \<Rightarrow> loc) r))"
  then have "getActiveGeoBasedRedirect p (location ctx) = None"
    by (auto simp: getActiveGeoBasedRedirect_def select_by_priority find_None_iff Let_def)
  with a show "getRedirectUrl env p ctx = redirectUrl p"
    by (simp add: getRedirectUrl_selectedUrl selectedUrl_def)
next
  assume a: "redirectType p = Conditional \<and>
      (\<forall>r \<in> set (conditionalRedirects p). \<not> (active r \<and> conditionalRuleApplies env ctx r))"
  then have "getActiveConditionalRedirect env p ctx = None"
    by (auto simp: getActiveConditionalRedirect_def select_by_priority find_None_iff)
  with a show "getRedirectUrl env p ctx = redirectUrl p"
    by (simp add: getRedirectUrl_selectedUrl selectedUrl_def)
qed

text \<open>
  The working-hours rule on Saturday 3 January 1970 at 10:00; an inactive rule for the US
  and an active one for Canada, for a visitor from the US; a rule for mobile devices, for a
  desktop; and the three profiles with no rule at all.
\<close>

theorem C8_no_match_witness:
  "getRedirectUrl (serverAt 0) (timeProfile [workRule]) (at 208800000)
     = Some ''https://default.example''
   \<and> getRedirectUrl (serverAt 0)
       (geoProfile [(geo ''https://us.example'' 5 (Some ''US'') None)\<lparr>active := False\<rparr>,
                    geo ''https://ca.example'' 1 (Some ''CA'') None])
       (visitor ''US'' ''CA'')
     = Some ''https://default.example''
   \<and> getRedirectUrl (serverAt 0)
       (conditionalProfile [cond ''https://m.example'' 1 Device Equals ''mobile''])
       (noContext\<lparr>device := Some ''desktop''\<rparr>)
     = Some ''https://default.example''
   \<and> getRedirectUrl (serverAt 0) (timeProfile []) noContext = Some ''https://default.example''
   \<and> getRedirectUrl (serverAt 0) (geoProfile []) noContext = Some ''https://default.example''
   \<and> getRedirectUrl (serverAt 0) (conditionalProfile []) noContext
     = Some ''https://default.example''"
proof -
  let ?t = "timeProfile [workRule]"
  let ?g = "geoProfile [(geo ''https://us.example'' 5 (Some ''US'') None)\<lparr>active := False\<rparr>,
                    geo ''https://ca.example'' 1 (Some ''CA'') None]"
  let ?c = "conditionalProfile [cond ''https://m.example'' 1 Device Equals ''mobile'']"
  let ?d = "noContext\<lparr>device := Some ''desktop''\<rparr>"
  have t: "redirectType ?t = TimeBased \<and>
      (\<forall>r \<in> set (timeBasedRedirects ?t).
         \<not> (active r \<and> timeRuleApplies (currentDay (serverAt 0) (timestamp (at 208800000)))
                          (currentTime (serverAt 0) (timestamp (at 208800000))) r))"
    by code_simp
  have g: "redirectType ?g = GeoBased \<and>
      (\<forall>r \<in> set (geoBasedRedirects ?g).
         \<not> (active r \<and> geoRuleApplies
               (case location (visitor ''US'' ''CA'') of None \<Rightarrow> emptyLocation | Some loc \<Rightarrow> loc) r))"
    by code_simp
  have c: "redirectType ?c = Conditional \<and>
      (\<forall>r \<in> set (conditionalRedirects ?c).
         \<not> (active r \<and> conditionalRuleApplies (serverAt 0) ?d r))"
    by code_simp
  have t0: "redirectType (timeProfile []) = TimeBased \<and>
      (\<forall>r \<in> set (timeBasedRedirects (timeProfile [])).
         \<not> (active r \<and> timeRuleApplies (currentDay (serverAt 0) (timestamp noContext))
                          (currentTime (serverAt 0) (timestamp noContext)) r))"
    by (simp add: timeProfile_def)
  have g0: "redirectType (geoProfile []) = GeoBased \<and>
      (\<forall>r \<in> set (geoBasedRedirects (geoProfile [])).
         \<not> (active r \<and> geoRuleApplies
               (case location noContext of None \<Rightarrow> emptyLocation | Some loc \<Rightarrow> loc) r))"
    by (simp add: geoProfile_def)
  have c0: "redirectType (conditionalProfile []) = Conditional \<and>
      (\<forall>r \<in> set (conditionalRedirects (conditionalProfile [])).
         \<not> (active r \<and> conditionalRuleApplies (serverAt 0) noContext r))"
    by (simp add: conditionalProfile_def)
  have u: "redirectUrl (timeProfile rs) = Some ''https://default.example''"
          "redirectUrl (geoProfile gs) = Some ''https://default.example''"
          "redirectUrl (conditionalProfile cs) = Some ''https://default.example''"
    for rs gs cs
    by (simp_all add: timeProfile_def geoProfile_def conditionalProfile_def)
  note inst = C8_no_match_returns_default
  from inst [where p = ?t and env = "serverAt 0" and ctx = "at 208800000", THEN conjunct1, rule_format, OF t]
       inst [where p = ?g and env = "serverAt 0" and ctx = "visitor ''US'' ''CA''",
            THEN conjunct2, THEN conjunct1, rule_format, OF g]
       inst [where p = ?c and env = "serverAt 0" and ctx = ?d,
            THEN conjunct2, THEN conjunct2, rule_format, OF c]
       inst [where p = "timeProfile []" and env = "serverAt 0" and ctx = noContext,
            THEN conjunct1, rule_format, OF t0]
       inst [where p = "geoProfile []" and env = "serverAt 0" and ctx = noContext,
            THEN conjunct2, THEN conjunct1, rule_format, OF g0]
       inst [where p = "conditionalProfile []" and env = "serverAt 0" and ctx = noContext,
            THEN conjunct2, THEN conjunct2, rule_format, OF c0]
  show ?thesis by (simp only: u simp_thms)
qed

section \<open>Wildcards of a geo rule\<close>

text \<open>
  C10. In a geo rule, a \<open>country\<close>, \<open>region\<close> or \<open>city\<close> that is the empty string constrains
  the match no more than a field that is unset: the rule applies to the same locations.
  A rule whose only field is the country \<open>''\<close> applies to every location, and alone in a
  profile it is selected for every visitor.
\<close>

theorem C10_empty_string_is_wildcard:
  "geoRuleApplies loc (rule\<lparr>country := Some ''''\<rparr>) = geoRuleApplies loc (rule\<lparr>country := None\<rparr>)
   \<and> geoRuleApplies loc (rule\<lparr>region := Some ''''\<rparr>) = geoRuleApplies loc (rule\<lparr>region := None\<rparr>)
   \<and> geoRuleApplies loc (rule\<lparr>city := Some ''''\<rparr>) = geoRuleApplies loc (rule\<lparr>city := None\<rparr>)
   \<and> geoRuleApplies loc (geo u k (Some '''') None)
   \<and> getActiveGeoBasedRedirect (geoProfile [geo u k (Some '''') None]) l
       = Some (geo u k (Some '''') None)"
  by (simp add: geoRuleApplies_def truthy_def geo_def getActiveGeoBasedRedirect_def
        geoProfile_def sortBy_def Let_def)

section \<open>Malformed regular expressions\<close>

text \<open>
  C9. For every conditional rule whose operator is \<open>regex\<close> and whose value the
  regular-expression constructor rejects, the rule applies to no context, and evaluating it
  yields \<open>False\<close> rather than the constructor's exception: the rule is never selected, and
  selection and resolution give what they give for the profile without that rule, a rule of
  lower priority or the default url. When the constructor accepts the value under the flag
  \<open>i\<close>, the rule applies exactly when the compiled expression tests true on the signal as
  it was received, not on its lower-cased copy.
\<close>

theorem C9_malformed_regex_never_matches:
  "(operator r = Regex \<and> RegExp env (val r) ''i'' = Inl e \<longrightarrow>
      \<not> conditionalRuleApplies env ctx r
      \<and> getActiveConditionalRedirect env p ctx \<noteq> Some r
      \<and> getActiveConditionalRedirect env p ctx =
          getActiveConditionalRedirect env
            (p\<lparr>conditionalRedirects := filter (\<lambda>x. x \<noteq> r) (conditionalRedirects p)\<rparr>) ctx
      \<and> getRedirectUrl env p ctx =
          getRedirectUrl env
            (p\<lparr>conditionalRedirects := filter (\<lambda>x. x \<noteq> r) (conditionalRedirects p)\<rparr>) ctx)
   \<and> (operator r = Regex \<and> RegExp env (val r) ''i'' = Inr test \<longrightarrow>
      conditionalRuleApplies env ctx r =
        test (case signal ctx (condition r) of None \<Rightarrow> [] | Some s \<Rightarrow> s))"
proof (intro conjI impI)
  assume a: "operator r = Regex \<and> RegExp env (val r) ''i'' = Inl e"
  let ?A = "conditionalRuleApplies env ctx"
  let ?xs = "conditionalRedirects p"
  let ?p' = "p\<lparr>conditionalRedirects := filter (\<lambda>x. x \<noteq> r) ?xs\<rparr>"
  from a show n: "\<not> ?A r"
    by (simp add: conditionalRuleApplies_def regexTest_def Let_def)
  then show "getActiveConditionalRedirect env p ctx \<noteq> Some r"
    by (auto simp: getActiveConditionalRedirect_def select_by_priority find_Some_iff)
  have "find (\<lambda>x. active x \<and> ?A x \<and>
                (\<forall>y \<in> set ?xs. active y \<and> ?A y \<longrightarrow> priority y \<le> priority x)) ?xs =
        find (\<lambda>x. x \<noteq> r \<and> active x \<and> ?A x \<and>
                (\<forall>y \<in> set (filter (\<lambda>x. x \<noteq> r) ?xs).
                   active y \<and> ?A y \<longrightarrow> priority y \<le> priority x)) ?xs"
    using n by (intro find_cong[OF refl]) auto
  then show sel: "getActiveConditionalRedirect env p ctx = getActiveConditionalRedirect env ?p' ctx"
    by (simp add: getActiveConditionalRedirect_def select_by_priority find_filter
          del: filter_filter)
  show "getRedirectUrl env p ctx = getRedirectUrl env ?p' ctx"
  proof (cases "redirectType p = Conditional")
    case True
    with sel show ?thesis
      by (simp add: getRedirectUrl_selectedUrl selectedUrl_def split: option.split)
  next
    case False
    then show ?thesis
      by (cases "redirectType p")
         (simp_all add: getRedirectUrl_selectedUrl selectedUrl_def
            getActiveTimeBasedRedirect_def getActiveGeoBasedRedirect_def split: option.split)
  qed
next
  assume "operator r = Regex \<and> RegExp env (val r) ''i'' = Inr test"
  then show "conditionalRuleApplies env ctx r =
        test (case signal ctx (condition r) of None \<Rightarrow> [] | Some s \<Rightarrow> s)"
    by (auto simp: conditionalRuleApplies_def regexTest_def Let_def truthy_def
          split: option.splits)
qed

text \<open>
  The pattern \<open>(\<close> is rejected: the rule of priority 10 that carries it is passed over and
  the rule of priority 1 decides, whose pattern \<open>iphone\<close> is found in the signal
  \<open>Mozilla iPhone\<close>; a profile with the malformed rule alone resolves to its default url.
\<close>

theorem C9_malformed_regex_witness:
  "operator badRegexRule = Regex
   \<and> RegExp (serverAt 0) (val badRegexRule) ''i'' = Inl (SyntaxError ''('')
   \<and> \<not> conditionalRuleApplies (serverAt 0) (noContext\<lparr>user_agent := Some ''Mozilla iPhone''\<rparr>)
         badRegexRule
   \<and> getRedirectUrl (serverAt 0) (conditionalProfile [badRegexRule, iphoneRule])
        (noContext\<lparr>user_agent := Some ''Mozilla iPhone''\<rparr>) = Some ''https://m.example''
   \<and> getRedirectUrl (serverAt 0) (conditionalProfile [badRegexRule])
        (noContext\<lparr>user_agent := Some ''Mozilla iPhone''\<rparr>) = Some ''https://default.example''
   \<and> operator iphoneRule = Regex
   \<and> conditionalRuleApplies (serverAt 0) (noContext\<lparr>user_agent := Some ''Mozilla iPhone''\<rparr>)
        iphoneRule"
proof -
  let ?ctx = "noContext\<lparr>user_agent := Some ''Mozilla iPhone''\<rparr>"
  let ?test = "\<lambda>s. if CHR ''i'' \<in> set ''i''
                     then sublist (toLowerCase ''iphone'') (toLowerCase s)
                     else sublist ''iphone'' s"
  have h: "operator badRegexRule = Regex \<and>
           RegExp (serverAt 0) (val badRegexRule) ''i'' = Inl (SyntaxError ''('')"
    by (simp add: badRegexRule_def cond_def serverAt_def literalRegExp_def)
  have k: "operator iphoneRule = Regex \<and> RegExp (serverAt 0) (val iphoneRule) ''i'' = Inr ?test"
    by (simp add: iphoneRule_def cond_def serverAt_def literalRegExp_def)
  let ?both = "conditionalProfile [badRegexRule, iphoneRule]"
  let ?alone = "conditionalProfile [badRegexRule]"
  have p1: "?both\<lparr>conditionalRedirects :=
                filter (\<lambda>x. x \<noteq> badRegexRule) (conditionalRedirects ?both)\<rparr>
            = conditionalProfile [iphoneRule]"
    by (simp add: conditionalProfile_def badRegexRule_def iphoneRule_def cond_def)
  have p2: "?alone\<lparr>conditionalRedirects :=
                filter (\<lambda>x. x \<noteq> badRegexRule) (conditionalRedirects ?alone)\<rparr>
            = conditionalProfile []"
    by (simp add: conditionalProfile_def)
  have e1: "getRedirectUrl (serverAt 0) (conditionalProfile [iphoneRule]) ?ctx
              = Some ''https://m.example''"
    by code_simp
  have e2: "getRedirectUrl (serverAt 0) (conditionalProfile []) ?ctx
              = Some ''https://default.example''"
    by code_simp
  have t: "?test (case signal ?ctx (condition iphoneRule) of None \<Rightarrow> [] | Some s \<Rightarrow> s)"
    by code_simp
  note bad = C9_malformed_regex_never_matches [THEN conjunct1, rule_format, OF h]
  note good = C9_malformed_regex_never_matches [THEN conjunct2, rule_format, OF k]
  have a: "\<not> conditionalRuleApplies (serverAt 0) ?ctx badRegexRule"
    by (rule bad [of ?ctx, THEN conjunct1])
  have b: "getRedirectUrl (serverAt 0) ?both ?ctx = Some ''https://m.example''"
    using bad [of ?ctx ?both, THEN conjunct2, THEN conjunct2, THEN conjunct2]
    by (simp only: p1 e1)
  have c: "getRedirectUrl (serverAt 0) ?alone ?ctx = Some ''https://default.example''"
    using bad [of ?ctx ?alone, THEN conjunct2, THEN conjunct2, THEN conjunct2]
    by (simp only: p2 e2)
  have d: "conditionalRuleApplies (serverAt 0) ?ctx iphoneRule"
    using good [of ?ctx] t by simp
  from h k a b c d show ?thesis by simp
qed

section \<open>What the code does where the specification asks for more\<close>

subsection \<open>The time zone of a time rule\<close>

text \<open>
  C2. The specification has the day and the time of a tap computed in the time zone named
  by the rule. The code reads them in the local zone of the server and never reads the
  rule's \<open>timezone\<close>. The working-hours rule is declared for \<open>America/New_York\<close>, where
  the instant 1 January 1970 13:00 UTC is 08:00, before the rule starts: a server in UTC
  selects the rule, a server nine hours east of UTC does not, and changing the \<open>timezone\<close>
  of a rule never changes whether it applies.
\<close>

theorem C2_server_zone_decides:
  "timezone workRule = ''America/New_York''
   \<and> getActiveTimeBasedRedirect (serverAt 0) (timeProfile [workRule]) (Some 46800000)
       = Some workRule
   \<and> getActiveTimeBasedRedirect (serverAt 9) (timeProfile [workRule]) (Some 46800000) = None
   \<and> currentTime (serverAt 0) (Some 46800000) = ''13:00''
   \<and> currentTime (serverAt (- 5)) (Some 46800000) = ''08:00''
   \<and> currentTime (serverAt 9) (Some 46800000) = ''22:00''
   \<and> timeRuleApplies day time (rule\<lparr>timezone := z\<rparr>) = timeRuleApplies day time rule"
proof (intro conjI)
  show "timezone workRule = ''America/New_York''" by (simp add: workRule_def)
  show "getActiveTimeBasedRedirect (serverAt 0) (timeProfile [workRule]) (Some 46800000)
       = Some workRule" by code_simp
  show "getActiveTimeBasedRedirect (serverAt 9) (timeProfile [workRule]) (Some 46800000) = None"
    by code_simp
  show "currentTime (serverAt 0) (Some 46800000) = ''13:00''" by code_simp
  show "currentTime (serverAt (- 5)) (Some 46800000) = ''08:00''" by code_simp
  show "currentTime (serverAt 9) (Some 46800000) = ''22:00''" by code_simp
  show "timeRuleApplies day time (rule\<lparr>timezone := z\<rparr>) = timeRuleApplies day time rule"
    by (simp add: timeRuleApplies_def)
qed

subsection \<open>A profile without a default url\<close>

text \<open>
  C4, as the specification states it, has \<open>getRedirectUrl\<close> report an error for a profile
  whose \<open>redirectUrl\<close> is absent or empty. The code has no such result: for a static
  profile without a \<open>redirectUrl\<close> it returns \<open>undefined\<close>, and for one whose
  \<open>redirectUrl\<close> is the empty string it returns the empty string.
\<close>

theorem C4_counterexample:
  "getRedirectUrl (serverAt 0) (staticProfile None) noContext = None
   \<and> getRedirectUrl (serverAt 0) (staticProfile (Some '''')) noContext = Some ''''"
  by (simp add: getRedirectUrl_def staticProfile_def)

text \<open>
  C4, amended. For every profile whose \<open>redirectUrl\<close> is absent or empty and whose
  rules have the fields and types that the schema declares, \<open>getRedirectUrl\<close> returns
  the url of the rule that the selector of the profile's strategy selects, and under the
  strategy \<open>static\<close>, or when no rule is selected, it returns the \<open>redirectUrl\<close> as it
  is: \<open>undefined\<close> when it is absent, the empty string when it is empty. The returned
  value is thus \<open>undefined\<close>, the empty string or the url of one of the profile's rules.
\<close>

theorem C4_missing_default_is_returned:
  assumes "redirectUrl p = None \<or> redirectUrl p = Some ''''"
  shows "(redirectType p = Static \<longrightarrow> getRedirectUrl env p ctx = redirectUrl p)
     \<and> (redirectType p = TimeBased \<longrightarrow> getRedirectUrl env p ctx =
          (case getActiveTimeBasedRedirect env p (timestamp ctx) of
             Some r \<Rightarrow> Some (url r) | None \<Rightarrow> redirectUrl p))
     \<and> (redirectType p = GeoBased \<longrightarrow> getRedirectUrl env p ctx =
          (case getActiveGeoBasedRedirect p (location ctx) of
             Some r \<Rightarrow> Some (url r) | None \<Rightarrow> redirectUrl p))
     \<and> (redirectType p = Conditional \<longrightarrow> getRedirectUrl env p ctx =
          (case getActiveConditionalRedirect env p ctx of
             Some r \<Rightarrow> Some (url r) | None \<Rightarrow> redirectUrl p))
     \<and> (getRedirectUrl env p ctx = None \<or> getRedirectUrl env p ctx = Some '''' \<or>
        getRedirectUrl env p ctx \<in> Some ` url ` set (timeBasedRedirects p) \<or>
        getRedirectUrl env p ctx \<in> Some ` url ` set (geoBasedRedirects p) \<or>
        getRedirectUrl env p ctx \<in> Some ` url ` set (conditionalRedirects p))"
proof -
  have sel: "getRedirectUrl env p ctx =
     (case selectedUrl env p ctx of Some u \<Rightarrow> Some u | None \<Rightarrow> redirectUrl p)"
    by (rule getRedirectUrl_selectedUrl)
  have t: "getActiveTimeBasedRedirect env p (timestamp ctx) = Some r \<Longrightarrow>
           r \<in> set (timeBasedRedirects p)" for r
    by (auto simp: getActiveTimeBasedRedirect_def find_filter find_Some_iff)
  have g: "getActiveGeoBasedRedirect p (location ctx) = Some r \<Longrightarrow>
           r \<in> set (geoBasedRedirects p)" for r
    by (auto simp: getActiveGeoBasedRedirect_def select_by_priority find_Some_iff Let_def)
  have c: "getActiveConditionalRedirect env p ctx = Some r \<Longrightarrow>
           r \<in> set (conditionalRedirects p)" for r
    by (auto simp: getActiveConditionalRedirect_def select_by_priority find_Some_iff)
  show ?thesis
  proof (cases "redirectType p")
    case Static
    with assms show ?thesis by (auto simp: sel selectedUrl_def)
  next
    case TimeBased
    with assms t show ?thesis
      by (auto simp: sel selectedUrl_def split: option.splits)
  next
    case GeoBased
    with assms g show ?thesis
      by (auto simp: sel selectedUrl_def split: option.splits)
  next
    case Conditional
    with assms c show ?thesis
      by (auto simp: sel selectedUrl_def split: option.splits)
  qed
qed

text \<open>
  Without a default url: a static profile, the working-hours profile on a Thursday at 13:00
  and on a Saturday at 10:00.
\<close>

theorem C4_missing_default_witness:
  "redirectUrl (staticProfile None) = None
   \<and> getRedirectUrl (serverAt 0) (staticProfile None) noContext = None
   \<and> getRedirectUrl (serverAt 0) ((timeProfile [workRule])\<lparr>redirectUrl := None\<rparr>) (at 46800000)
       = Some ''https://work.example''
   \<and> getRedirectUrl (serverAt 0) ((timeProfile [workRule])\<lparr>redirectUrl := None\<rparr>) (at 208800000)
       = None"
proof -
  let ?p = "(timeProfile [workRule])\<lparr>redirectUrl := None\<rparr>"
  have s: "redirectUrl (staticProfile None) = None \<or> redirectUrl (staticProfile None) = Some ''''"
    by (simp add: staticProfile_def)
  have st: "redirectType (staticProfile None) = Static" "redirectUrl (staticProfile None) = None"
    by (simp_all add: staticProfile_def)
  have h: "redirectUrl ?p = None \<or> redirectUrl ?p = Some ''''"
    by (simp add: timeProfile_def)
  have ty: "redirectType ?p = TimeBased" "redirectUrl ?p = None"
    by (simp_all add: timeProfile_def)
  have a: "getActiveTimeBasedRedirect (serverAt 0) ?p (timestamp (at 46800000)) = Some workRule"
    by code_simp
  have b: "getActiveTimeBasedRedirect (serverAt 0) ?p (timestamp (at 208800000)) = None"
    by code_simp
  have u: "url workRule = ''https://work.example''" by (simp add: workRule_def)
  from C4_missing_default_is_returned [OF s, of "serverAt 0" noContext]
       C4_missing_default_is_returned [OF h, of "serverAt 0" "at 46800000"]
       C4_missing_default_is_returned [OF h, of "serverAt 0" "at 208800000"]
  show ?thesis by (simp add: st ty a b u)
qed

subsection \<open>The tap route\<close>

text \<open>
  C1. The specification has the tap processor return the url that the resolver gives for
  the card's profile. The route does not fetch the profile: for an activated card with a
  profile it answers with the fixed url \<open>https://example.com\<close>. The sample card's profile
  resolves to \<open>https://a.example\<close>.
\<close>

theorem C1_tap_returns_placeholder:
  "profile sampleCard = Some 1
   \<and> profiles (sampleStore acceptingSave) 1 = Some (staticProfile (Some ''https://a.example''))
   \<and> getRedirectUrl (serverAt 0) (staticProfile (Some ''https://a.example'')) noContext
       = Some ''https://a.example''
   \<and> tap (serverAt 0) (sampleStore acceptingSave) ''abcd1234''
       = Json 200 (Success ''Card tapped successfully''
           \<lparr>r_uid = ''ABCD1234'', r_nickname = None, r_owner = None, r_tapCount = 1,
            r_hasProfile = True, r_redirectUrl = Some ''https://example.com''\<rparr>)"
proof (intro conjI)
  show "profile sampleCard = Some 1" by (simp add: sampleCard_def)
  show "profiles (sampleStore acceptingSave) 1 = Some (staticProfile (Some ''https://a.example''))"
    by (simp add: sampleStore_def)
  show "getRedirectUrl (serverAt 0) (staticProfile (Some ''https://a.example'')) noContext
       = Some ''https://a.example''"
    by (simp add: getRedirectUrl_def staticProfile_def)
  show "tap (serverAt 0) (sampleStore acceptingSave) ''abcd1234''
       = Json 200 (Success ''Card tapped successfully''
           \<lparr>r_uid = ''ABCD1234'', r_nickname = None, r_owner = None, r_tapCount = 1,
            r_hasProfile = True, r_redirectUrl = Some ''https://example.com''\<rparr>)"
    by code_simp
qed

text \<open>
  C3, as the specification states it, has the response complete when recording the tap
  fails. The route awaits \<open>card.recordTap()\<close> inside its \<open>try\<close> block: when the write is
  rejected, the handler passes the error to \<open>next\<close> and sends no response.
\<close>

theorem C3_counterexample:
  "tap (serverAt 0) (sampleStore rejectingSave) ''ABCD1234'' = Next (Error ''write failed'')"
  by code_simp

text \<open>
  C3, amended. For every tap on an activated card, the route records the tap before it
  answers: when recording the tap raises, that error is passed to \<open>next\<close> and no response
  is sent; when it succeeds, the success response is sent with status 200.
\<close>

theorem C3_recording_failure_propagates:
  assumes "findOne st (toUpperCase uid) = Inr (Some c)" and "isActivated c"
  shows "(save st (c\<lparr>tapCount := tapCount c + 1, lastTapped := Some (clock_now env)\<rparr>) = Inl e
            \<longrightarrow> tap env st uid = Next e)
       \<and> (save st (c\<lparr>tapCount := tapCount c + 1, lastTapped := Some (clock_now env)\<rparr>) = Inr ()
            \<longrightarrow> (\<exists>d. tap env st uid = Json 200 (Success ''Card tapped successfully'' d)))"
  using assms by (simp add: tap_def recordTap_def Let_def)

text \<open>The sample card, with a store that rejects the write and with one that accepts it.\<close>

theorem C3_recording_failure_witness:
  "findOne (sampleStore rejectingSave) (toUpperCase ''abcd1234'') = Inr (Some sampleCard)
   \<and> isActivated sampleCard
   \<and> tap (serverAt 0) (sampleStore rejectingSave) ''abcd1234'' = Next (Error ''write failed'')
   \<and> (\<exists>d. tap (serverAt 0) (sampleStore acceptingSave) ''abcd1234''
            = Json 200 (Success ''Card tapped successfully'' d))"
proof -
  have f: "findOne (sampleStore sv) (toUpperCase ''abcd1234'') = Inr (Some sampleCard)" for sv
    by code_simp
  have i: "isActivated sampleCard" by (simp add: sampleCard_def)
  have r: "save (sampleStore rejectingSave) x = Inl (Error ''write failed'')" for x
    by (simp add: sampleStore_def rejectingSave_def)
  have a: "save (sampleStore acceptingSave) x = Inr ()" for x
    by (simp add: sampleStore_def acceptingSave_def)
  from C3_recording_failure_propagates [OF f i, of rejectingSave "serverAt 0" "Error ''write failed''"]
       C3_recording_failure_propagates [OF f i, of acceptingSave "serverAt 0"]
       f i r a
  show ?thesis by simp
qed

end
